theory Spec2Isabelle
  imports Main
begin

section \<open>RecruitEM dispatcher: a shallow embedding of \<^verbatim>\<open>orchestrator.py\<close>\<close>

text \<open>
  The development follows \<^verbatim>\<open>src/orchestrator.py\<close>: the three lookup tables, the
  tools \<^verbatim>\<open>get_test_link\<close>, \<^verbatim>\<open>rag_search\<close> and \<^verbatim>\<open>generate_prep_tip\<close>, the router, the two
  specialist agents and \<^verbatim>\<open>orchestrate\<close>.

  Conventions of the model.
  \<^item> A Python \<^verbatim>\<open>str\<close> is a \<^typ>\<open>string\<close>. All literals of the program are ASCII except the
    arrow of the message templates, which is written as its three UTF-8 bytes.
    \<^verbatim>\<open>str.lower\<close> and \<^verbatim>\<open>str.strip\<close> are modelled on ASCII: letters \<^verbatim>\<open>A\<close> to \<^verbatim>\<open>Z\<close> are
    lowered and the ASCII whitespace is stripped, every other character is kept. Python
    also lowers and strips characters beyond ASCII, so a statement about the value of
    \<^verbatim>\<open>lower\<close> or \<^verbatim>\<open>strip\<close> on an arbitrary text assumes that the text is ASCII.
  \<^item> The \<^verbatim>\<open>print\<close> calls only trace the run on the console and are left out.
  \<^item> What the program reads from outside is a parameter: the process environment
    (\<^verbatim>\<open>os.getenv\<close>), the outcome of the call to the text-generation service, and the
    clock (\<^verbatim>\<open>datetime.now().isoformat()\<close>).
  \<^item> The agents update the state dictionary in place and return it; the model returns
    the updated record.
\<close>

subsection \<open>Python strings\<close>

definition upper_lower :: "(char \<times> char) list" where
  "upper_lower = zip ''ABCDEFGHIJKLMNOPQRSTUVWXYZ'' ''abcdefghijklmnopqrstuvwxyz''"

definition lower_char :: "char \<Rightarrow> char" where
  "lower_char c = (case map_of upper_lower c of Some l \<Rightarrow> l | None \<Rightarrow> c)"

text \<open>\<^verbatim>\<open>s.lower()\<close>\<close>

definition lower :: "string \<Rightarrow> string" where
  "lower s = map lower_char s"

text \<open>
  The whitespace of \<^verbatim>\<open>str.strip()\<close> in the ASCII range: tab, line feed, vertical tab,
  form feed, carriage return, the four separators \<^verbatim>\<open>0x1C\<close> to \<^verbatim>\<open>0x1F\<close>, and space.
\<close>

definition is_space :: "char \<Rightarrow> bool" where
  "is_space c = (c \<in> set [CHR 0x09, CHR 0x0A, CHR 0x0B, CHR 0x0C, CHR 0x0D,
                           CHR 0x1C, CHR 0x1D, CHR 0x1E, CHR 0x1F, CHR 0x20])"

text \<open>\<^verbatim>\<open>s.strip()\<close>\<close>

definition strip :: "string \<Rightarrow> string" where
  "strip s = rev (dropWhile is_space (rev (dropWhile is_space s)))"

text \<open>
  A text is ASCII when the top bit of each of its characters is clear. On such a text the
  two functions above are Python's.
\<close>

definition is_ascii :: "string \<Rightarrow> bool" where
  "is_ascii s = list_all (\<lambda>c. \<not> digit7 c) s"

text \<open>\<^verbatim>\<open>s.startswith(k)\<close>, used to define the substring test.\<close>

fun startswith :: "string \<Rightarrow> string \<Rightarrow> bool" where
  "startswith s [] = True"
| "startswith [] (k # ks) = False"
| "startswith (c # cs) (k # ks) = (c = k \<and> startswith cs ks)"

text \<open>\<^verbatim>\<open>k in s\<close> on strings: \<open>k\<close> occurs in \<open>s\<close> as a contiguous substring.\<close>

fun str_contains :: "string \<Rightarrow> string \<Rightarrow> bool" where
  "str_contains [] k = (k = [])"
| "str_contains (c # cs) k = (startswith (c # cs) k \<or> str_contains cs k)"

definition nl :: string where
  "nl = [CHR 0x0A]"

text \<open>The rightwards arrow U+2192 of the message templates, in UTF-8.\<close>

definition arrow :: string where
  "arrow = [CHR 0xE2, CHR 0x86, CHR 0x92]"

subsection \<open>Data\<close>

definition TEST_LINKS :: "(string \<times> string) list" where
  "TEST_LINKS =
    [(''Python Developer'', ''https://assess.example.com/python''),
     (''Data Analyst'', ''https://assess.example.com/data''),
     (''Frontend Developer'', ''https://assess.example.com/frontend''),
     (''DevOps Engineer'', ''https://assess.example.com/devops''),
     (''Product Manager'', ''https://assess.example.com/product'')]"

record job_posting =
  title :: string
  description :: string

definition JOB_DESCRIPTIONS :: "(string \<times> job_posting) list" where
  "JOB_DESCRIPTIONS =
    [(''J123'', \<lparr>title = ''Python Developer'',
        description = ''Python Developer role requiring FastAPI, async programming, REST APIs, PostgreSQL, and Docker. Must have 3+ years experience building scalable backend services.''\<rparr>),
     (''J456'', \<lparr>title = ''Data Analyst'',
        description = ''Data Analyst role requiring SQL, Tableau, Python for data analysis, statistical modeling, and experience with data warehousing concepts.''\<rparr>),
     (''J789'', \<lparr>title = ''Frontend Developer'',
        description = ''Frontend Developer role requiring React, TypeScript, modern CSS frameworks, and experience with responsive design and accessibility standards.''\<rparr>),
     (''J101'', \<lparr>title = ''DevOps Engineer'',
        description = ''DevOps Engineer role requiring Kubernetes, CI/CD pipelines, AWS/Azure, Terraform, and strong Linux system administration skills.''\<rparr>)]"

definition INTERVIEW_TIPS_DB :: "(string \<times> string) list" where
  "INTERVIEW_TIPS_DB =
    [(''python'', ''Review async/await patterns and how to handle concurrent requests efficiently.''),
     (''fastapi'', ''Understand dependency injection and how FastAPI uses Pydantic for validation.''),
     (''sql'', ''Practice complex JOIN queries and understand indexing strategies for performance.''),
     (''react'', ''Be ready to explain the virtual DOM, hooks lifecycle, and state management patterns.''),
     (''kubernetes'', ''Know the difference between Deployments, StatefulSets, and DaemonSets.'')]"

subsection \<open>State\<close>

record AgentState =
  job_id :: string
  candidate_name :: string
  candidate_email :: string
  status :: string
  job_title :: string
  job_description :: string
  output_message :: string
  metadata :: "(string \<times> string) list"

subsection \<open>Tools\<close>

text \<open>\<^verbatim>\<open>TEST_LINKS.get(role, "https://assess.example.com/general")\<close>\<close>

definition get_test_link :: "string \<Rightarrow> string" where
  "get_test_link role =
    (case map_of TEST_LINKS role of
       Some link \<Rightarrow> link
     | None \<Rightarrow> ''https://assess.example.com/general'')"

text \<open>
  \<^verbatim>\<open>rag_search\<close>: a query that is a key of the catalog gives the title and the first 150
  characters of the description; any other query is lowered and matched against the
  keywords of the tips table, in the table's order.
\<close>

definition rag_search :: "string \<Rightarrow> string" where
  "rag_search query =
    (case map_of JOB_DESCRIPTIONS query of
       Some jd \<Rightarrow> title jd @ '': '' @ take 150 (description jd) @ ''...''
     | None \<Rightarrow>
        (case find (\<lambda>(keyword, tip). str_contains (lower query) keyword) INTERVIEW_TIPS_DB of
           Some (keyword, tip) \<Rightarrow> tip
         | None \<Rightarrow> ''No specific tips found. General advice: Review the job description carefully and prepare examples from your past experience.''))"

text \<open>
  The text-generation service. An exception stands for any instance of Python's
  \<^verbatim>\<open>Exception\<close>, with its message. A reply is the list \<^verbatim>\<open>message.content\<close>; only a text
  block has the attribute \<^verbatim>\<open>text\<close>. A generator maps the credential and the prompt to
  what the import, the client construction and \<^verbatim>\<open>client.messages.create\<close> end with.
\<close>

datatype py_exception = PyException string

datatype content_block = TextBlock string | OtherBlock

type_synonym generator = "string \<Rightarrow> string \<Rightarrow> py_exception + content_block list"

type_synonym environ = "string \<Rightarrow> string option"

text \<open>Truth value of what \<^verbatim>\<open>os.getenv\<close> returns: \<^verbatim>\<open>None\<close> and the empty string are false.\<close>

definition truthy :: "string option \<Rightarrow> bool" where
  "truthy v = (case v of None \<Rightarrow> False | Some s \<Rightarrow> s \<noteq> [])"

definition tip_prompt :: "string \<Rightarrow> string" where
  "tip_prompt descr =
    ''Based on this job description, give ONE specific, high-impact tip to help a candidate prepare for their interview. Keep it under 50 words.''
    @ nl @ nl @ ''Job Description: '' @ descr @ nl @ nl @ ''Tip:''"

text \<open>
  The body of the \<^verbatim>\<open>try\<close> block: the request, then \<^verbatim>\<open>message.content[0].text.strip()\<close>.
  An empty content list raises \<^verbatim>\<open>IndexError\<close>, a first block without text raises
  \<^verbatim>\<open>AttributeError\<close>.
\<close>

definition external_tier :: "generator \<Rightarrow> string \<Rightarrow> string \<Rightarrow> py_exception + string" where
  "external_tier gen api_key descr =
    (case gen api_key (tip_prompt descr) of
       Inl e \<Rightarrow> Inl e
     | Inr content \<Rightarrow>
        (case content of
           [] \<Rightarrow> Inl (PyException ''list index out of range'')
         | TextBlock t # _ \<Rightarrow> Inr (strip t)
         | OtherBlock # _ \<Rightarrow> Inl (PyException ''object has no attribute text'')))"

definition keyword_list :: "string list" where
  "keyword_list = [''python'', ''sql'', ''react'', ''kubernetes'', ''fastapi'']"

text \<open>The fallback after the \<^verbatim>\<open>try\<close> block: the first keyword that occurs in the lowered
  description selects the tip.\<close>

definition keyword_tier :: "string \<Rightarrow> string" where
  "keyword_tier descr =
    (case find (\<lambda>keyword. str_contains (lower descr) keyword) keyword_list of
       Some keyword \<Rightarrow>
        (case map_of INTERVIEW_TIPS_DB keyword of
           Some tip \<Rightarrow> tip
         | None \<Rightarrow> ''Review the core concepts for this role.'')
     | None \<Rightarrow> ''Study the job requirements and prepare concrete examples from your experience.'')"

text \<open>
  \<^verbatim>\<open>generate_prep_tip\<close>: the external tier is entered when the flag is set and the
  credential is set and not empty; the client is then built from a second read of the
  credential. \<^verbatim>\<open>except Exception\<close> sends every exception of the \<^verbatim>\<open>try\<close> block to the
  keyword fallback, and so does a client without credential, whose request is refused.
\<close>

definition generate_prep_tip :: "environ \<Rightarrow> generator \<Rightarrow> string \<Rightarrow> bool \<Rightarrow> string" where
  "generate_prep_tip env gen descr use_claude =
    (if use_claude \<and> truthy (env ''ANTHROPIC_API_KEY'') then
       (case env ''ANTHROPIC_API_KEY'' of
          Some api_key \<Rightarrow>
            (case external_tier gen api_key descr of
               Inr tip \<Rightarrow> tip
             | Inl e \<Rightarrow> keyword_tier descr)
        | None \<Rightarrow> keyword_tier descr)
     else keyword_tier descr)"

subsection \<open>Agents\<close>

definition router_agent :: "AgentState \<Rightarrow> string" where
  "router_agent state =
    (if lower (status state) = ''assessment'' then ''assessment'' else ''interview'')"

definition assessment_message :: "string \<Rightarrow> string \<Rightarrow> string \<Rightarrow> string" where
  "assessment_message name job test_link =
    ''Hi '' @ name @ ''!'' @ nl @ nl
    @ ''Great news! You've been selected to move forward with the '' @ job @ '' position.'' @ nl @ nl
    @ ''Next Step: Please complete your technical assessment at your earliest convenience.'' @ nl @ nl
    @ arrow @ '' Assessment Link: '' @ test_link @ nl
    @ arrow @ '' Time Limit: 60 minutes'' @ nl
    @ arrow @ '' Tip: Review the job description before starting'' @ nl @ nl
    @ ''Best of luck!'' @ nl
    @ ''RecruitEM Team''"

definition assessment_agent :: "string \<Rightarrow> AgentState \<Rightarrow> AgentState" where
  "assessment_agent now state =
    (let test_link = get_test_link (job_title state);
         message = assessment_message (candidate_name state) (job_title state) test_link
     in state\<lparr>output_message := message,
              metadata := [(''agent'', ''assessment''),
                           (''test_link'', test_link),
                           (''timestamp'', now)]\<rparr>)"

definition interview_message :: "string \<Rightarrow> string \<Rightarrow> string \<Rightarrow> string \<Rightarrow> string" where
  "interview_message name job prep_tip jd_snippet =
    ''Hi '' @ name @ ''!'' @ nl @ nl
    @ ''Congratulations on reaching the interview stage for '' @ job @ ''!'' @ nl @ nl
    @ arrow @ '' Your interview is coming up soon. Here's a personalized tip to help you prepare:'' @ nl @ nl
    @ arrow @ '' Key Focus Area:'' @ nl
    @ prep_tip @ nl @ nl
    @ arrow @ '' Role Context:'' @ nl
    @ jd_snippet @ nl @ nl
    @ ''Remember: Prepare specific examples from your experience that demonstrate these skills.'' @ nl @ nl
    @ ''You've got this!'' @ nl
    @ ''RecruitEM Team''"

definition interview_agent ::
  "environ \<Rightarrow> generator \<Rightarrow> string \<Rightarrow> AgentState \<Rightarrow> bool \<Rightarrow> AgentState" where
  "interview_agent env gen now state use_claude =
    (let jd_snippet = rag_search (job_id state);
         prep_tip = generate_prep_tip env gen (job_description state) use_claude;
         message = interview_message (candidate_name state) (job_title state) prep_tip jd_snippet
     in state\<lparr>output_message := message,
              metadata := [(''agent'', ''interview''),
                           (''prep_tip'', prep_tip),
                           (''timestamp'', now)]\<rparr>)"

subsection \<open>Orchestrator\<close>

text \<open>Step 1 of \<^verbatim>\<open>orchestrate\<close>: the state built from the arguments and the catalog.\<close>

definition initial_state :: "string \<Rightarrow> string \<Rightarrow> string \<Rightarrow> string \<Rightarrow> AgentState" where
  "initial_state name email st jid =
    (let (jt, jd) =
           (case map_of JOB_DESCRIPTIONS jid of
              None \<Rightarrow> (''Software Engineer'',
                        ''Software engineering role requiring technical expertise.'')
            | Some job_info \<Rightarrow> (title job_info, description job_info))
     in \<lparr>job_id = jid, candidate_name = name, candidate_email = email, status = st,
         job_title = jt, job_description = jd, output_message = [], metadata = []\<rparr>)"

text \<open>Steps 2 and 3: the router picks the agent, the agent updates the state.\<close>

definition final_state ::
  "environ \<Rightarrow> generator \<Rightarrow> string \<Rightarrow> string \<Rightarrow> string \<Rightarrow> string \<Rightarrow> string \<Rightarrow> bool \<Rightarrow> AgentState" where
  "final_state env gen now name email st jid use_claude =
    (let state = initial_state name email st jid;
         next_agent = router_agent state
     in if next_agent = ''assessment'' then assessment_agent now state
        else interview_agent env gen now state use_claude)"

text \<open>
  Step 4: the closing trace reads \<^verbatim>\<open>state['metadata']['agent']\<close>, a subscript that raises
  \<^verbatim>\<open>KeyError\<close> when the key is missing; then \<^verbatim>\<open>orchestrate\<close> returns the message of the
  final state.
\<close>

definition orchestrate ::
  "environ \<Rightarrow> generator \<Rightarrow> string \<Rightarrow> string \<Rightarrow> string \<Rightarrow> string \<Rightarrow> string \<Rightarrow> bool
    \<Rightarrow> py_exception + string" where
  "orchestrate env gen now name email st jid use_claude =
    (let state = final_state env gen now name email st jid use_claude
     in case map_of (metadata state) ''agent'' of
          None \<Rightarrow> Inl (PyException ''KeyError: agent'')
        | Some agent \<Rightarrow> Inr (output_message state))"

subsection \<open>Scenario fixtures\<close>

text \<open>An environment without any variable, and one that holds a credential.\<close>

definition empty_env :: environ where
  "empty_env name = None"

definition key_env :: environ where
  "key_env name = (if name = ''ANTHROPIC_API_KEY'' then Some ''sk-test'' else None)"

text \<open>A service that cannot be reached, and one that answers with a blank text block.\<close>

definition failing_generator :: generator where
  "failing_generator api_key prompt = Inl (PyException ''Connection error.'')"

definition blank_generator :: generator where
  "blank_generator api_key prompt = Inr [TextBlock ''  '']"

section \<open>Auxiliary facts\<close>

subsection \<open>Substrings\<close>

lemma startswith_iff: "startswith s k \<longleftrightarrow> (\<exists>q. s = k @ q)"
  by (induction s k rule: startswith.induct) auto

text \<open>The executable test agrees with the usual meaning of a contiguous substring.\<close>

lemma str_contains_iff: "str_contains s k \<longleftrightarrow> (\<exists>p q. s = p @ k @ q)"
proof (induction s)
  case Nil
  then show ?case by auto
next
  case (Cons c cs)
  show ?case
  proof
    assume "str_contains (c # cs) k"
    then consider "startswith (c # cs) k" | "str_contains cs k" by auto
    then show "\<exists>p q. c # cs = p @ k @ q"
    proof cases
      case 1
      then obtain q where "c # cs = k @ q" by (auto simp: startswith_iff)
      then have "c # cs = [] @ k @ q" by simp
      then show ?thesis by blast
    next
      case 2
      then obtain p q where "cs = p @ k @ q" using Cons.IH by blast
      then have "c # cs = (c # p) @ k @ q" by simp
      then show ?thesis by blast
    qed
  next
    assume "\<exists>p q. c # cs = p @ k @ q"
    then obtain p q where pq: "c # cs = p @ k @ q" by blast
    show "str_contains (c # cs) k"
    proof (cases p)
      case Nil
      with pq have "startswith (c # cs) k" by (auto simp: startswith_iff)
      then show ?thesis by simp
    next
      case (Cons a p')
      with pq have "cs = p' @ k @ q" by simp
      then have "str_contains cs k" using Cons.IH by blast
      then show ?thesis by simp
    qed
  qed
qed

lemma str_contains_middle: "str_contains (p @ k @ q) k"
  unfolding str_contains_iff by blast

subsection \<open>Lower-casing\<close>

text \<open>The characters that \<^verbatim>\<open>lower\<close> sends to each letter of \<^verbatim>\<open>assessment\<close>.\<close>

lemma lower_char_cases:
  "lower_char c = CHR ''a'' \<longleftrightarrow> c = CHR ''a'' \<or> c = CHR ''A''"
  "lower_char c = CHR ''s'' \<longleftrightarrow> c = CHR ''s'' \<or> c = CHR ''S''"
  "lower_char c = CHR ''e'' \<longleftrightarrow> c = CHR ''e'' \<or> c = CHR ''E''"
  "lower_char c = CHR ''m'' \<longleftrightarrow> c = CHR ''m'' \<or> c = CHR ''M''"
  "lower_char c = CHR ''n'' \<longleftrightarrow> c = CHR ''n'' \<or> c = CHR ''N''"
  "lower_char c = CHR ''t'' \<longleftrightarrow> c = CHR ''t'' \<or> c = CHR ''T''"
  by (auto simp: lower_char_def upper_lower_def split: if_splits)

subsection \<open>Evaluation of the tools and the dispatcher\<close>

lemma generate_prep_tip_no_external:
  "\<not> (use_claude \<and> truthy (env ''ANTHROPIC_API_KEY'')) \<Longrightarrow>
     generate_prep_tip env gen descr use_claude = keyword_tier descr"
  by (auto simp: generate_prep_tip_def)

lemma keyword_tier_J456:
  "keyword_tier ''Data Analyst role requiring SQL, Tableau, Python for data analysis, statistical modeling, and experience with data warehousing concepts.''
     = ''Review async/await patterns and how to handle concurrent requests efficiently.''"
  by code_simp

lemma initial_state_J456:
  "initial_state name email st ''J456'' =
     \<lparr>job_id = ''J456'', candidate_name = name, candidate_email = email, status = st,
      job_title = ''Data Analyst'',
      job_description = ''Data Analyst role requiring SQL, Tableau, Python for data analysis, statistical modeling, and experience with data warehousing concepts.'',
      output_message = [], metadata = []\<rparr>"
  by (simp add: initial_state_def JOB_DESCRIPTIONS_def)

lemma router_Interview: "router_agent (initial_state name email ''Interview'' jid) = ''interview''"
  by (simp add: router_agent_def initial_state_def lower_def split: option.splits prod.splits)

section \<open>Scenario D: the tip for job J456\<close>

text \<open>
  Claim C1, as the specification states it: for status \<^verbatim>\<open>Interview\<close>, job \<^verbatim>\<open>J456\<close> and no
  credential, the tip of \<^verbatim>\<open>generate_prep_tip\<close> is the corpus entry of the keyword \<^verbatim>\<open>sql\<close>.
  The program does otherwise. The description of J456 names SQL and also Python, and the
  keyword list is scanned in its own order, where \<^verbatim>\<open>python\<close> comes before \<^verbatim>\<open>sql\<close>. The
  tip differs from the entry of \<^verbatim>\<open>sql\<close>.
\<close>

theorem scenario_d_not_sql_entry:
  "Some (generate_prep_tip empty_env failing_generator
           (job_description (initial_state ''Bob Martinez'' ''bob@email.com'' ''Interview'' ''J456'')) False)
     \<noteq> map_of INTERVIEW_TIPS_DB ''sql''"
  by (simp add: generate_prep_tip_no_external initial_state_J456 keyword_tier_J456 INTERVIEW_TIPS_DB_def)

text \<open>
  Claim C1, amended: for status \<^verbatim>\<open>Interview\<close>, job \<^verbatim>\<open>J456\<close> and no credential (the variable
  is unset or empty), whatever the flag and the service, the tip of \<^verbatim>\<open>generate_prep_tip\<close>
  is the corpus entry of the keyword \<^verbatim>\<open>python\<close>, and this is the tip recorded in the
  metadata of the dispatch.
\<close>

theorem scenario_d_tip_is_python_entry:
  assumes "\<not> truthy (env ''ANTHROPIC_API_KEY'')"
  shows "generate_prep_tip env gen (job_description (initial_state name email ''Interview'' ''J456'')) use_claude
           = ''Review async/await patterns and how to handle concurrent requests efficiently.''
       \<and> map_of INTERVIEW_TIPS_DB ''python''
           = Some ''Review async/await patterns and how to handle concurrent requests efficiently.''
       \<and> map_of (metadata (final_state env gen now name email ''Interview'' ''J456'' use_claude)) ''prep_tip''
           = map_of INTERVIEW_TIPS_DB ''python''"
proof -
  have tip: "generate_prep_tip env gen (job_description (initial_state name email ''Interview'' ''J456'')) use_claude
           = ''Review async/await patterns and how to handle concurrent requests efficiently.''"
    using assms by (simp add: generate_prep_tip_no_external initial_state_J456 keyword_tier_J456)
  have db: "map_of INTERVIEW_TIPS_DB ''python''
           = Some ''Review async/await patterns and how to handle concurrent requests efficiently.''"
    by (simp add: INTERVIEW_TIPS_DB_def)
  have "metadata (final_state env gen now name email ''Interview'' ''J456'' use_claude)
          = [(''agent'', ''interview''),
             (''prep_tip'', generate_prep_tip env gen (job_description (initial_state name email ''Interview'' ''J456'')) use_claude),
             (''timestamp'', now)]"
    by (simp add: final_state_def router_Interview interview_agent_def Let_def)
  then have "map_of (metadata (final_state env gen now name email ''Interview'' ''J456'' use_claude)) ''prep_tip''
          = Some (generate_prep_tip env gen (job_description (initial_state name email ''Interview'' ''J456'')) use_claude)"
    by simp
  with tip db show ?thesis by simp
qed

theorem scenario_d_witness:
  "\<not> truthy (empty_env ''ANTHROPIC_API_KEY'')
   \<and> generate_prep_tip empty_env failing_generator
        (job_description (initial_state ''Bob Martinez'' ''bob@email.com'' ''Interview'' ''J456'')) True
       = ''Review async/await patterns and how to handle concurrent requests efficiently.''"
proof -
  have h: "\<not> truthy (empty_env ''ANTHROPIC_API_KEY'')"
    by (simp add: truthy_def empty_env_def)
  from scenario_d_tip_is_python_entry
    [where env = empty_env and gen = failing_generator and name = "''Bob Martinez''"
      and email = "''bob@email.com''" and use_claude = True, OF h]
  show ?thesis using h by simp
qed

section \<open>Context retrieval for a known job\<close>

text \<open>
  Claim C2, as the specification states it: for a known job id, \<^verbatim>\<open>rag_search\<close> appends the
  marker \<^verbatim>\<open>...\<close> only when the description has more than 150 characters, and returns a
  shorter description unmodified. The program appends the marker in every case: the
  description of J456 has 136 characters, nothing is cut, and the snippet still ends with
  the marker after the full stop of the description.
\<close>

theorem rag_search_J456_marker_without_truncation:
  "map_of JOB_DESCRIPTIONS ''J456'' =
     Some \<lparr>title = ''Data Analyst'',
           description = ''Data Analyst role requiring SQL, Tableau, Python for data analysis, statistical modeling, and experience with data warehousing concepts.''\<rparr>
   \<and> length ''Data Analyst role requiring SQL, Tableau, Python for data analysis, statistical modeling, and experience with data warehousing concepts.'' = 136
   \<and> rag_search ''J456'' =
       ''Data Analyst: Data Analyst role requiring SQL, Tableau, Python for data analysis, statistical modeling, and experience with data warehousing concepts....''"
  by (simp add: rag_search_def JOB_DESCRIPTIONS_def)

text \<open>
  Claim C2, amended: for every query that is a known job id, \<^verbatim>\<open>rag_search\<close> returns the
  title, a colon and a space, the first 150 characters of the description, and the marker
  \<^verbatim>\<open>...\<close>. The marker is appended whatever the length: a description of 150 characters
  or fewer appears whole, followed by the marker; of a longer one exactly 150 characters
  are kept.
\<close>

theorem rag_search_known_job:
  assumes "map_of JOB_DESCRIPTIONS query = Some jd"
  shows "rag_search query = title jd @ '': '' @ take 150 (description jd) @ ''...''
       \<and> (length (description jd) \<le> 150 \<longrightarrow>
            rag_search query = title jd @ '': '' @ description jd @ ''...'')
       \<and> (150 < length (description jd) \<longrightarrow>
            length (rag_search query) = length (title jd) + 2 + 150 + 3)"
  using assms by (simp add: rag_search_def)

theorem rag_search_known_job_witness:
  "map_of JOB_DESCRIPTIONS ''J123'' =
     Some \<lparr>title = ''Python Developer'',
           description = ''Python Developer role requiring FastAPI, async programming, REST APIs, PostgreSQL, and Docker. Must have 3+ years experience building scalable backend services.''\<rparr>
   \<and> rag_search ''J123'' =
       ''Python Developer: Python Developer role requiring FastAPI, async programming, REST APIs, PostgreSQL, and Docker. Must have 3+ years experience building scalable backend...''
   \<and> map_of JOB_DESCRIPTIONS ''J101'' =
     Some \<lparr>title = ''DevOps Engineer'',
           description = ''DevOps Engineer role requiring Kubernetes, CI/CD pipelines, AWS/Azure, Terraform, and strong Linux system administration skills.''\<rparr>
   \<and> rag_search ''J101'' =
       ''DevOps Engineer: DevOps Engineer role requiring Kubernetes, CI/CD pipelines, AWS/Azure, Terraform, and strong Linux system administration skills....''"
proof -
  have h1: "map_of JOB_DESCRIPTIONS ''J123'' =
     Some \<lparr>title = ''Python Developer'',
           description = ''Python Developer role requiring FastAPI, async programming, REST APIs, PostgreSQL, and Docker. Must have 3+ years experience building scalable backend services.''\<rparr>"
    by (simp add: JOB_DESCRIPTIONS_def)
  have h2: "map_of JOB_DESCRIPTIONS ''J101'' =
     Some \<lparr>title = ''DevOps Engineer'',
           description = ''DevOps Engineer role requiring Kubernetes, CI/CD pipelines, AWS/Azure, Terraform, and strong Linux system administration skills.''\<rparr>"
    by (simp add: JOB_DESCRIPTIONS_def)
  show ?thesis
    using h1 h2 rag_search_known_job [OF h1] rag_search_known_job [OF h2] by simp
qed

section \<open>The router\<close>

lemma lower_assessment_iff:
  "lower s = ''assessment'' \<longleftrightarrow>
     list_all2 (\<lambda>c (l, u). c = l \<or> c = u) s (zip ''assessment'' ''ASSESSMENT'')"
  by (auto simp: lower_def map_eq_Cons_conv list_all2_Cons2 lower_char_cases)

text \<open>
  Claim C3: for every status, the router returns \<^verbatim>\<open>assessment\<close> exactly when the status is
  the word \<^verbatim>\<open>assessment\<close> with each letter in either case, and returns \<^verbatim>\<open>interview\<close> in
  every other case, among them the empty string, \<^verbatim>\<open>Interview\<close>, \<^verbatim>\<open>INTERVIEW\<close> and
  \<^verbatim>\<open>offer\<close>. The router has no failing branch and no third outcome.
\<close>

theorem router_agent_two_way:
  "(router_agent state = ''assessment'' \<longleftrightarrow>
      list_all2 (\<lambda>c (l, u). c = l \<or> c = u) (status state) (zip ''assessment'' ''ASSESSMENT''))
   \<and> (router_agent state = ''interview'' \<longleftrightarrow> router_agent state \<noteq> ''assessment'')
   \<and> (status state \<in> {'''', ''Interview'', ''INTERVIEW'', ''offer''} \<longrightarrow>
        router_agent state = ''interview'')"
proof (intro conjI)
  show "router_agent state = ''assessment'' \<longleftrightarrow>
      list_all2 (\<lambda>c (l, u). c = l \<or> c = u) (status state) (zip ''assessment'' ''ASSESSMENT'')"
    unfolding lower_assessment_iff [symmetric] by (simp add: router_agent_def)
  show "router_agent state = ''interview'' \<longleftrightarrow> router_agent state \<noteq> ''assessment''"
    by (simp add: router_agent_def)
  show "status state \<in> {'''', ''Interview'', ''INTERVIEW'', ''offer''} \<longrightarrow>
        router_agent state = ''interview''"
    by (auto simp: router_agent_def lower_def)
qed

theorem router_agent_two_way_witness:
  "router_agent (initial_state ''Ann'' ''ann@example.com'' ''AsSeSsMeNt'' ''J123'') = ''assessment''
   \<and> router_agent (initial_state ''Ann'' ''ann@example.com'' ''offer'' ''J123'') = ''interview''
   \<and> router_agent (initial_state ''Ann'' ''ann@example.com'' ''assessments'' ''J123'') = ''interview''"
proof -
  have s1: "status (initial_state ''Ann'' ''ann@example.com'' ''AsSeSsMeNt'' ''J123'') = ''AsSeSsMeNt''"
    and s2: "status (initial_state ''Ann'' ''ann@example.com'' ''offer'' ''J123'') = ''offer''"
    and s3: "status (initial_state ''Ann'' ''ann@example.com'' ''assessments'' ''J123'') = ''assessments''"
    by (simp_all add: initial_state_def JOB_DESCRIPTIONS_def)
  show ?thesis
    using router_agent_two_way [of "initial_state ''Ann'' ''ann@example.com'' ''AsSeSsMeNt'' ''J123''"]
      router_agent_two_way [of "initial_state ''Ann'' ''ann@example.com'' ''offer'' ''J123''"]
      router_agent_two_way [of "initial_state ''Ann'' ''ann@example.com'' ''assessments'' ''J123''"]
    unfolding s1 s2 s3 by simp
qed

section \<open>The frame of the agents\<close>

text \<open>
  Claim C8: both agents write only \<^verbatim>\<open>output_message\<close> and \<^verbatim>\<open>metadata\<close>. The fields
  \<^verbatim>\<open>job_id\<close>, \<^verbatim>\<open>candidate_name\<close>, \<^verbatim>\<open>candidate_email\<close>, \<^verbatim>\<open>status\<close>, \<^verbatim>\<open>job_title\<close> and
  \<^verbatim>\<open>job_description\<close> of the state that \<^verbatim>\<open>assessment_agent\<close> or \<^verbatim>\<open>interview_agent\<close>
  returns are those of the state it received.
\<close>

theorem agents_keep_request_fields:
  "job_id (assessment_agent now state) = job_id state
   \<and> candidate_name (assessment_agent now state) = candidate_name state
   \<and> candidate_email (assessment_agent now state) = candidate_email state
   \<and> status (assessment_agent now state) = status state
   \<and> job_title (assessment_agent now state) = job_title state
   \<and> job_description (assessment_agent now state) = job_description state
   \<and> job_id (interview_agent env gen now state use_claude) = job_id state
   \<and> candidate_name (interview_agent env gen now state use_claude) = candidate_name state
   \<and> candidate_email (interview_agent env gen now state use_claude) = candidate_email state
   \<and> status (interview_agent env gen now state use_claude) = status state
   \<and> job_title (interview_agent env gen now state use_claude) = job_title state
   \<and> job_description (interview_agent env gen now state use_claude) = job_description state"
  by (simp add: assessment_agent_def interview_agent_def Let_def)

theorem agents_keep_request_fields_witness:
  "job_id (assessment_agent ''2024-12-01T09:00:00'' (initial_state ''Ann'' ''ann@example.com'' ''Assessment'' ''J123'')) = ''J123''
   \<and> job_title (interview_agent key_env blank_generator ''2024-12-01T09:00:00''
        (initial_state ''Ann'' ''ann@example.com'' ''Interview'' ''J123'') True) = ''Python Developer''"
  using agents_keep_request_fields [of "''2024-12-01T09:00:00''"
      "initial_state ''Ann'' ''ann@example.com'' ''Assessment'' ''J123''"]
    agents_keep_request_fields [of "''2024-12-01T09:00:00''"
      "initial_state ''Ann'' ''ann@example.com'' ''Interview'' ''J123''" key_env blank_generator True]
  by (simp add: initial_state_def JOB_DESCRIPTIONS_def)

section \<open>Unknown job ids\<close>

lemma initial_state_unknown:
  assumes "jid \<notin> fst ` set JOB_DESCRIPTIONS"
  shows "initial_state name email st jid =
     \<lparr>job_id = jid, candidate_name = name, candidate_email = email, status = st,
      job_title = ''Software Engineer'',
      job_description = ''Software engineering role requiring technical expertise.'',
      output_message = [], metadata = []\<rparr>"
proof -
  from assms have "map_of JOB_DESCRIPTIONS jid = None"
    by (simp add: map_of_eq_None_iff)
  then show ?thesis by (simp add: initial_state_def)
qed

lemma final_state_fields:
  "job_title (final_state env gen now name email st jid use_claude) = job_title (initial_state name email st jid)"
  "job_description (final_state env gen now name email st jid use_claude) = job_description (initial_state name email st jid)"
  by (simp_all add: final_state_def Let_def assessment_agent_def interview_agent_def)

lemma final_state_agent:
  "map_of (metadata (final_state env gen now name email st jid use_claude)) ''agent''
     = Some (router_agent (initial_state name email st jid))"
  by (simp add: final_state_def Let_def assessment_agent_def interview_agent_def router_agent_def)

lemma orchestrate_returns:
  "orchestrate env gen now name email st jid use_claude
     = Inr (output_message (final_state env gen now name email st jid use_claude))"
  by (simp add: orchestrate_def Let_def final_state_agent)

text \<open>
  Claim C5: for every job id that is not a key of the catalog, the dispatcher sets the job
  title to the generic title and the job description to the generic description, in the
  state it builds and in the state the agent returns; neither field is empty; and
  \<^verbatim>\<open>orchestrate\<close> returns a message (no subscript of the run raises).
\<close>

theorem unknown_job_generic_defaults:
  assumes "jid \<notin> fst ` set JOB_DESCRIPTIONS"
  shows "job_title (initial_state name email st jid) = ''Software Engineer''
       \<and> job_description (initial_state name email st jid)
           = ''Software engineering role requiring technical expertise.''
       \<and> job_title (final_state env gen now name email st jid use_claude) = ''Software Engineer''
       \<and> job_description (final_state env gen now name email st jid use_claude)
           = ''Software engineering role requiring technical expertise.''
       \<and> job_title (final_state env gen now name email st jid use_claude) \<noteq> []
       \<and> job_description (final_state env gen now name email st jid use_claude) \<noteq> []
       \<and> (\<exists>message. orchestrate env gen now name email st jid use_claude = Inr message)"
  by (simp add: final_state_fields orchestrate_returns initial_state_unknown [OF assms])

theorem unknown_job_generic_defaults_witness:
  "''UNKNOWN'' \<notin> fst ` set JOB_DESCRIPTIONS
   \<and> job_title (final_state key_env failing_generator ''2024-12-01T09:00:00'' ''Ann'' ''ann@example.com''
        ''Interview'' ''UNKNOWN'' True) = ''Software Engineer''
   \<and> job_description (final_state key_env failing_generator ''2024-12-01T09:00:00'' ''Ann'' ''ann@example.com''
        ''Interview'' ''UNKNOWN'' True) = ''Software engineering role requiring technical expertise.''"
proof -
  have h: "''UNKNOWN'' \<notin> fst ` set JOB_DESCRIPTIONS"
    by (simp add: JOB_DESCRIPTIONS_def)
  from unknown_job_generic_defaults [OF h, where env = key_env and gen = failing_generator
      and now = "''2024-12-01T09:00:00''" and name = "''Ann''" and email = "''ann@example.com''"
      and st = "''Interview''" and use_claude = True]
  show ?thesis using h by simp
qed

section \<open>The assessment agent\<close>

lemma get_test_link_mapped: "map_of TEST_LINKS role = Some link \<Longrightarrow> get_test_link role = link"
  by (simp add: get_test_link_def)

lemma get_test_link_unmapped:
  assumes "role \<notin> fst ` set TEST_LINKS"
  shows "get_test_link role = ''https://assess.example.com/general''"
proof -
  from assms have "map_of TEST_LINKS role = None"
    by (simp add: map_of_eq_None_iff)
  then show ?thesis by (simp add: get_test_link_def)
qed

text \<open>
  Claim C6: the assessment agent has no failing step. Its link lookup returns the mapped
  link when the job title is a key of the link map and the generic link otherwise. Its
  message is a fixed template, four constant pieces around the candidate name, the job
  title and the resolved link, and the last piece holds the time limit of 60 minutes.
  Its metadata records the agent, the link used and the timestamp.
\<close>

theorem assessment_agent_result:
  "(map_of TEST_LINKS (job_title state) = Some link \<longrightarrow> get_test_link (job_title state) = link)
   \<and> (job_title state \<notin> fst ` set TEST_LINKS \<longrightarrow>
        get_test_link (job_title state) = ''https://assess.example.com/general'')
   \<and> (\<exists>a b c d. str_contains d ''Time Limit: 60 minutes''
        \<and> (\<forall>now' state'. output_message (assessment_agent now' state')
              = a @ candidate_name state' @ b @ job_title state' @ c
                  @ get_test_link (job_title state') @ d))
   \<and> metadata (assessment_agent now state)
        = [(''agent'', ''assessment''),
           (''test_link'', get_test_link (job_title state)),
           (''timestamp'', now)]"
proof (intro conjI)
  show "map_of TEST_LINKS (job_title state) = Some link \<longrightarrow> get_test_link (job_title state) = link"
    by (simp add: get_test_link_mapped)
  show "job_title state \<notin> fst ` set TEST_LINKS \<longrightarrow>
        get_test_link (job_title state) = ''https://assess.example.com/general''"
    by (simp add: get_test_link_unmapped)
  show "metadata (assessment_agent now state)
        = [(''agent'', ''assessment''),
           (''test_link'', get_test_link (job_title state)),
           (''timestamp'', now)]"
    by (simp add: assessment_agent_def Let_def)
  let ?a = "''Hi ''"
  let ?b = "''!'' @ nl @ nl @ ''Great news! You've been selected to move forward with the ''"
  let ?c = "'' position.'' @ nl @ nl
    @ ''Next Step: Please complete your technical assessment at your earliest convenience.'' @ nl @ nl
    @ arrow @ '' Assessment Link: ''"
  let ?d = "(nl @ arrow @ '' '') @ ''Time Limit: 60 minutes'' @ (nl
    @ arrow @ '' Tip: Review the job description before starting'' @ nl @ nl
    @ ''Best of luck!'' @ nl
    @ ''RecruitEM Team'')"
  have d: "str_contains ?d ''Time Limit: 60 minutes''"
    by (rule str_contains_middle)
  have "\<forall>now' state'. output_message (assessment_agent now' state')
              = ?a @ candidate_name state' @ ?b @ job_title state' @ ?c
                  @ get_test_link (job_title state') @ ?d"
    by (simp add: assessment_agent_def Let_def assessment_message_def)
  with d show "\<exists>a b c d. str_contains d ''Time Limit: 60 minutes''
        \<and> (\<forall>now' state'. output_message (assessment_agent now' state')
              = a @ candidate_name state' @ b @ job_title state' @ c
                  @ get_test_link (job_title state') @ d)"
    by blast
qed

theorem assessment_agent_result_witness:
  "metadata (assessment_agent ''2024-12-01T09:00:00''
      (initial_state ''Sarah Johnson'' ''sarah@example.com'' ''Assessment'' ''J123''))
     = [(''agent'', ''assessment''),
        (''test_link'', ''https://assess.example.com/python''),
        (''timestamp'', ''2024-12-01T09:00:00'')]
   \<and> get_test_link (job_title (initial_state ''Sarah Johnson'' ''sarah@example.com'' ''Assessment'' ''G12I''))
     = ''https://assess.example.com/general''"
proof -
  have t1: "job_title (initial_state ''Sarah Johnson'' ''sarah@example.com'' ''Assessment'' ''J123'')
              = ''Python Developer''"
    and t2: "job_title (initial_state ''Sarah Johnson'' ''sarah@example.com'' ''Assessment'' ''G12I'')
              = ''Software Engineer''"
    by (simp_all add: initial_state_def JOB_DESCRIPTIONS_def)
  have m: "map_of TEST_LINKS ''Python Developer'' = Some ''https://assess.example.com/python''"
    and u: "''Software Engineer'' \<notin> fst ` set TEST_LINKS"
    by (simp_all add: TEST_LINKS_def)
  show ?thesis
    using assessment_agent_result [of "initial_state ''Sarah Johnson'' ''sarah@example.com'' ''Assessment'' ''J123''"
        "''https://assess.example.com/python''" "''2024-12-01T09:00:00''"]
      assessment_agent_result [of "initial_state ''Sarah Johnson'' ''sarah@example.com'' ''Assessment'' ''G12I''"
        "''https://assess.example.com/general''" "''2024-12-01T09:00:00''"]
    by (simp only: t1 t2 m u simp_thms)
qed

section \<open>Unknown job on the assessment path\<close>

text \<open>
  Claim C10: for every job id that is not a key of the catalog and every status that the
  router sends to the assessment agent, \<^verbatim>\<open>orchestrate\<close> returns a message that contains the
  generic assessment link, since the generic title \<^verbatim>\<open>Software Engineer\<close> is not a key of the
  link map.
\<close>

theorem unknown_job_assessment_link:
  assumes "jid \<notin> fst ` set JOB_DESCRIPTIONS"
    and "router_agent (initial_state name email st jid) = ''assessment''"
  shows "''Software Engineer'' \<notin> fst ` set TEST_LINKS
       \<and> (\<exists>message. orchestrate env gen now name email st jid use_claude = Inr message
            \<and> str_contains message ''https://assess.example.com/general'')"
proof -
  have u: "''Software Engineer'' \<notin> fst ` set TEST_LINKS"
    by (simp add: TEST_LINKS_def)
  then have link: "get_test_link ''Software Engineer'' = ''https://assess.example.com/general''"
    by (rule get_test_link_unmapped)
  have "output_message (final_state env gen now name email st jid use_claude)
          = assessment_message name ''Software Engineer'' ''https://assess.example.com/general''"
    using assms(2)
    by (simp add: final_state_def Let_def assessment_agent_def link initial_state_unknown [OF assms(1)])
  also have "\<dots> = (''Hi '' @ name @ ''!'' @ nl @ nl
    @ ''Great news! You've been selected to move forward with the '' @ ''Software Engineer'' @ '' position.'' @ nl @ nl
    @ ''Next Step: Please complete your technical assessment at your earliest convenience.'' @ nl @ nl
    @ arrow @ '' Assessment Link: '') @ ''https://assess.example.com/general'' @ (nl
    @ arrow @ '' Time Limit: 60 minutes'' @ nl
    @ arrow @ '' Tip: Review the job description before starting'' @ nl @ nl
    @ ''Best of luck!'' @ nl
    @ ''RecruitEM Team'')"
    by (simp add: assessment_message_def)
  finally have "str_contains (output_message (final_state env gen now name email st jid use_claude))
      ''https://assess.example.com/general''"
    by (simp only: str_contains_middle)
  with u show ?thesis
    by (simp add: orchestrate_returns)
qed

theorem unknown_job_assessment_link_witness:
  "''F0188'' \<notin> fst ` set JOB_DESCRIPTIONS
   \<and> router_agent (initial_state ''Arushi Srivastava'' ''aru@bits.com'' ''Assessment'' ''F0188'') = ''assessment''
   \<and> (\<exists>message. orchestrate empty_env failing_generator ''2024-12-01T09:00:00''
          ''Arushi Srivastava'' ''aru@bits.com'' ''Assessment'' ''F0188'' False = Inr message
        \<and> str_contains message ''https://assess.example.com/general'')"
proof -
  have h1: "''F0188'' \<notin> fst ` set JOB_DESCRIPTIONS"
    by (simp add: JOB_DESCRIPTIONS_def)
  have h2: "router_agent (initial_state ''Arushi Srivastava'' ''aru@bits.com'' ''Assessment'' ''F0188'') = ''assessment''"
    by (simp add: initial_state_unknown [OF h1] router_agent_def lower_def lower_char_def upper_lower_def)
  from unknown_job_assessment_link [OF h1 h2, where env = empty_env and gen = failing_generator
      and now = "''2024-12-01T09:00:00''" and use_claude = False]
  show ?thesis using h1 h2 by blast
qed

section \<open>Tip generation\<close>

subsection \<open>The keyword tier\<close>

lemma keyword_list_has_tips: "k \<in> set keyword_list \<Longrightarrow> \<exists>tip. map_of INTERVIEW_TIPS_DB k = Some tip \<and> tip \<noteq> []"
  by (auto simp: keyword_list_def INTERVIEW_TIPS_DB_def)

lemma find_in_set: "find P xs = Some x \<Longrightarrow> x \<in> set xs"
  by (auto simp: find_Some_iff)

lemma keyword_tier_hit:
  assumes "find (\<lambda>keyword. str_contains (lower descr) keyword) keyword_list = Some k"
  shows "\<exists>tip. map_of INTERVIEW_TIPS_DB k = Some tip \<and> tip \<noteq> [] \<and> keyword_tier descr = tip"
proof -
  from assms have "k \<in> set keyword_list" by (rule find_in_set)
  then obtain tip where "map_of INTERVIEW_TIPS_DB k = Some tip" "tip \<noteq> []"
    using keyword_list_has_tips by blast
  with assms show ?thesis by (simp add: keyword_tier_def)
qed

lemma keyword_tier_miss:
  assumes "find (\<lambda>keyword. str_contains (lower descr) keyword) keyword_list = None"
  shows "keyword_tier descr = ''Study the job requirements and prepare concrete examples from your experience.''"
  using assms by (simp add: keyword_tier_def)

lemma tips_not_review: "map_of INTERVIEW_TIPS_DB k \<noteq> Some ''Review the core concepts for this role.''"
  by (simp add: INTERVIEW_TIPS_DB_def)

lemma keyword_tier_nonempty: "keyword_tier descr \<noteq> []"
proof (cases "find (\<lambda>keyword. str_contains (lower descr) keyword) keyword_list")
  case None
  then show ?thesis by (simp add: keyword_tier_miss)
next
  case (Some k)
  then show ?thesis using keyword_tier_hit by fastforce
qed

subsection \<open>Determinism without the external tier\<close>

text \<open>
  Claim C7: when the external tier is not taken (the flag is false, or the credential is
  unset or empty), the tip depends on the job description only. Any two calls of
  \<^verbatim>\<open>generate_prep_tip\<close> with the same description return the same tip, whatever the
  environment, the service and the flag of each call, provided neither call takes the
  external tier.
\<close>

theorem tip_deterministic_without_external_tier:
  assumes "\<not> (use_claude1 \<and> truthy (env1 ''ANTHROPIC_API_KEY''))"
    and "\<not> (use_claude2 \<and> truthy (env2 ''ANTHROPIC_API_KEY''))"
  shows "generate_prep_tip env1 gen1 descr use_claude1 = generate_prep_tip env2 gen2 descr use_claude2"
proof -
  have "generate_prep_tip env1 gen1 descr use_claude1 = keyword_tier descr"
    using assms(1) by (rule generate_prep_tip_no_external)
  moreover have "generate_prep_tip env2 gen2 descr use_claude2 = keyword_tier descr"
    using assms(2) by (rule generate_prep_tip_no_external)
  ultimately show ?thesis by simp
qed

theorem tip_deterministic_witness:
  "\<not> (True \<and> truthy (empty_env ''ANTHROPIC_API_KEY''))
   \<and> \<not> (False \<and> truthy (key_env ''ANTHROPIC_API_KEY''))
   \<and> generate_prep_tip empty_env failing_generator ''Senior React engineer'' True
       = generate_prep_tip key_env blank_generator ''Senior React engineer'' False"
proof -
  have h1: "\<not> (True \<and> truthy (empty_env ''ANTHROPIC_API_KEY''))"
    by (simp add: truthy_def empty_env_def)
  have h2: "\<not> (False \<and> truthy (key_env ''ANTHROPIC_API_KEY''))"
    by simp
  from tip_deterministic_without_external_tier [where ?env1.0 = empty_env and ?use_claude1.0 = True
      and ?env2.0 = key_env and ?use_claude2.0 = False and ?gen1.0 = failing_generator
      and ?gen2.0 = blank_generator and descr = "''Senior React engineer''", OF h1 h2]
  show ?thesis using h1 by simp
qed

subsection \<open>Every keyword has a tip\<close>

text \<open>
  Claim C9: every keyword of the fixed list has an entry in the tip corpus. So whenever
  the scan of a description stops at a keyword, the corpus lookup finds a tip, and the
  result of the keyword tier is never the missing-entry message.
\<close>

theorem missing_entry_branch_unreachable:
  "(k \<in> set keyword_list \<longrightarrow> k \<in> fst ` set INTERVIEW_TIPS_DB)
   \<and> (find (\<lambda>keyword. str_contains (lower descr) keyword) keyword_list = Some k \<longrightarrow>
        (\<exists>tip. map_of INTERVIEW_TIPS_DB k = Some tip \<and> keyword_tier descr = tip))
   \<and> keyword_tier descr \<noteq> ''Review the core concepts for this role.''"
proof (intro conjI impI)
  assume "k \<in> set keyword_list"
  then obtain tip where "map_of INTERVIEW_TIPS_DB k = Some tip"
    using keyword_list_has_tips by blast
  then have "(k, tip) \<in> set INTERVIEW_TIPS_DB" by (rule map_of_SomeD)
  then show "k \<in> fst ` set INTERVIEW_TIPS_DB" by force
next
  assume "find (\<lambda>keyword. str_contains (lower descr) keyword) keyword_list = Some k"
  then show "\<exists>tip. map_of INTERVIEW_TIPS_DB k = Some tip \<and> keyword_tier descr = tip"
    using keyword_tier_hit by blast
next
  show "keyword_tier descr \<noteq> ''Review the core concepts for this role.''"
  proof (cases "find (\<lambda>keyword. str_contains (lower descr) keyword) keyword_list")
    case None
    then show ?thesis by (simp add: keyword_tier_miss)
  next
    case (Some k')
    then obtain tip where "map_of INTERVIEW_TIPS_DB k' = Some tip" "keyword_tier descr = tip"
      using keyword_tier_hit by blast
    then show ?thesis using tips_not_review [of k'] by auto
  qed
qed

lemma find_fastapi:
  "find (\<lambda>keyword. str_contains (lower ''FastAPI services'') keyword) keyword_list = Some ''fastapi''"
  by code_simp

theorem missing_entry_branch_unreachable_witness:
  "''fastapi'' \<in> set keyword_list
   \<and> ''fastapi'' \<in> fst ` set INTERVIEW_TIPS_DB
   \<and> find (\<lambda>keyword. str_contains (lower ''FastAPI services'') keyword) keyword_list = Some ''fastapi''
   \<and> keyword_tier ''FastAPI services''
       = ''Understand dependency injection and how FastAPI uses Pydantic for validation.''"
proof -
  have h1: "''fastapi'' \<in> set keyword_list"
    by (simp add: keyword_list_def)
  have db: "map_of INTERVIEW_TIPS_DB ''fastapi''
      = Some ''Understand dependency injection and how FastAPI uses Pydantic for validation.''"
    by (simp add: INTERVIEW_TIPS_DB_def)
  from missing_entry_branch_unreachable [of "''fastapi''" "''FastAPI services''"]
  show ?thesis using h1 find_fastapi db by auto
qed

subsection \<open>The tiers of \<^verbatim>\<open>generate_prep_tip\<close>\<close>

lemma find_None_ball: "(\<forall>x\<in>set xs. \<not> P x) \<Longrightarrow> find P xs = None"
  by (simp add: find_None_iff)

lemma no_keyword_in_generic:
  "\<forall>k\<in>set keyword_list. \<not> str_contains (lower ''Software engineering role requiring technical expertise.'') k"
  by code_simp

text \<open>
  Claim C4, as the specification states it: for every job description and flag,
  \<^verbatim>\<open>generate_prep_tip\<close> returns a non-empty string. The program returns the stripped text of
  the service's reply without looking at it: with the flag set, a credential configured
  and a reply whose text is blank, the tip is the empty string.
\<close>

theorem blank_reply_gives_empty_tip:
  "generate_prep_tip key_env blank_generator ''Python Developer role'' True = []"
  by (simp add: generate_prep_tip_def key_env_def truthy_def external_tier_def blank_generator_def
      strip_def is_space_def)

text \<open>The stripped text is empty exactly when the text is empty or only whitespace.\<close>

lemma dropWhile_all_iff: "(\<forall>x\<in>set (dropWhile P xs). P x) \<longleftrightarrow> (\<forall>x\<in>set xs. P x)"
proof
  assume a: "\<forall>x\<in>set (dropWhile P xs). P x"
  have "dropWhile P xs = []"
  proof (rule ccontr)
    assume ne: "dropWhile P xs \<noteq> []"
    then have "\<not> P (hd (dropWhile P xs))" by (rule hd_dropWhile)
    moreover from ne have "hd (dropWhile P xs) \<in> set (dropWhile P xs)" by (rule hd_in_set)
    ultimately show False using a by blast
  qed
  then show "\<forall>x\<in>set xs. P x" by (simp add: dropWhile_eq_Nil_conv)
next
  assume "\<forall>x\<in>set xs. P x"
  then show "\<forall>x\<in>set (dropWhile P xs). P x" by (auto dest: set_dropWhileD)
qed

lemma strip_empty_iff: "strip s = [] \<longleftrightarrow> list_all is_space s"
proof -
  have "strip s = [] \<longleftrightarrow> (\<forall>x\<in>set (dropWhile is_space s). is_space x)"
    by (simp add: strip_def dropWhile_eq_Nil_conv)
  also have "\<dots> \<longleftrightarrow> (\<forall>x\<in>set s. is_space x)" by (rule dropWhile_all_iff)
  finally show ?thesis by (simp add: list_all_iff)
qed

text \<open>
  Claim C4, amended: for every ASCII job description, every flag, environment and outcome
  of the external call, \<^verbatim>\<open>generate_prep_tip\<close> returns a string and does not raise. When the
  external tier is not taken the result is that of the keyword tier. When it is taken and
  fails with any exception (the request raises, the content list is empty, the first block
  has no text) the exception is swallowed and the result is again that of the keyword
  tier. The keyword tier's result is never empty, and it is the fixed generic message when
  no keyword of the list occurs in the lowered description. When the external tier
  succeeds with an ASCII text the result is the stripped text, and it is empty exactly when
  that text is empty or only whitespace.
\<close>

theorem generate_prep_tip_tiers:
  assumes "is_ascii descr"
  shows "(\<not> (use_claude \<and> truthy (env ''ANTHROPIC_API_KEY'')) \<longrightarrow>
      generate_prep_tip env gen descr use_claude = keyword_tier descr)
   \<and> (use_claude \<and> env ''ANTHROPIC_API_KEY'' = Some api_key \<and> api_key \<noteq> [] \<longrightarrow>
        (case gen api_key (tip_prompt descr) of
           Inl e \<Rightarrow> generate_prep_tip env gen descr use_claude = keyword_tier descr
         | Inr [] \<Rightarrow> generate_prep_tip env gen descr use_claude = keyword_tier descr
         | Inr (OtherBlock # rest) \<Rightarrow> generate_prep_tip env gen descr use_claude = keyword_tier descr
         | Inr (TextBlock t # rest) \<Rightarrow>
             is_ascii t \<longrightarrow>
               generate_prep_tip env gen descr use_claude = strip t
               \<and> (generate_prep_tip env gen descr use_claude = [] \<longleftrightarrow> list_all is_space t)))
   \<and> keyword_tier descr \<noteq> []
   \<and> ((\<forall>k\<in>set keyword_list. \<not> str_contains (lower descr) k) \<longrightarrow>
        keyword_tier descr
          = ''Study the job requirements and prepare concrete examples from your experience.'')"
proof (intro conjI impI)
  assume "\<not> (use_claude \<and> truthy (env ''ANTHROPIC_API_KEY''))"
  then show "generate_prep_tip env gen descr use_claude = keyword_tier descr"
    by (rule generate_prep_tip_no_external)
next
  assume "use_claude \<and> env ''ANTHROPIC_API_KEY'' = Some api_key \<and> api_key \<noteq> []"
  then show "case gen api_key (tip_prompt descr) of
           Inl e \<Rightarrow> generate_prep_tip env gen descr use_claude = keyword_tier descr
         | Inr [] \<Rightarrow> generate_prep_tip env gen descr use_claude = keyword_tier descr
         | Inr (OtherBlock # rest) \<Rightarrow> generate_prep_tip env gen descr use_claude = keyword_tier descr
         | Inr (TextBlock t # rest) \<Rightarrow>
             is_ascii t \<longrightarrow>
               generate_prep_tip env gen descr use_claude = strip t
               \<and> (generate_prep_tip env gen descr use_claude = [] \<longleftrightarrow> list_all is_space t)"
    by (simp add: generate_prep_tip_def truthy_def external_tier_def strip_empty_iff
        split: sum.splits list.splits content_block.splits)
next
  show "keyword_tier descr \<noteq> []"
    by (rule keyword_tier_nonempty)
next
  assume "\<forall>k\<in>set keyword_list. \<not> str_contains (lower descr) k"
  then have "find (\<lambda>keyword. str_contains (lower descr) keyword) keyword_list = None"
    by (rule find_None_ball)
  then show "keyword_tier descr
          = ''Study the job requirements and prepare concrete examples from your experience.''"
    by (rule keyword_tier_miss)
qed

theorem generate_prep_tip_tiers_witness:
  "is_ascii ''Software engineering role requiring technical expertise.''
   \<and> is_ascii ''  ''
   \<and> generate_prep_tip key_env failing_generator
      ''Software engineering role requiring technical expertise.'' True
     = ''Study the job requirements and prepare concrete examples from your experience.''
   \<and> generate_prep_tip empty_env failing_generator
      ''Software engineering role requiring technical expertise.'' True
     = ''Study the job requirements and prepare concrete examples from your experience.''
   \<and> generate_prep_tip key_env blank_generator
      ''Software engineering role requiring technical expertise.'' True = []"
proof -
  have a: "is_ascii ''Software engineering role requiring technical expertise.''"
    and a': "is_ascii ''  ''"
    by (simp_all add: is_ascii_def)
  have k: "key_env ''ANTHROPIC_API_KEY'' = Some ''sk-test''" "''sk-test'' \<noteq> []"
    by (simp_all add: key_env_def)
  have e: "\<not> truthy (empty_env ''ANTHROPIC_API_KEY'')"
    by (simp add: truthy_def empty_env_def)
  have f: "failing_generator ''sk-test'' (tip_prompt ''Software engineering role requiring technical expertise.'')
      = Inl (PyException ''Connection error.'')"
    by (simp add: failing_generator_def)
  have b: "blank_generator ''sk-test'' (tip_prompt ''Software engineering role requiring technical expertise.'')
      = Inr [TextBlock ''  '']"
    by (simp add: blank_generator_def)
  have sp: "list_all is_space ''  ''"
    by (simp add: is_space_def)
  note t = generate_prep_tip_tiers [OF a, where use_claude = True and api_key = "''sk-test''"]
  from t [where env = key_env and gen = failing_generator] k f no_keyword_in_generic
  have 1: "generate_prep_tip key_env failing_generator
      ''Software engineering role requiring technical expertise.'' True
     = ''Study the job requirements and prepare concrete examples from your experience.''"
    by simp
  from t [where env = empty_env and gen = failing_generator] e no_keyword_in_generic
  have 2: "generate_prep_tip empty_env failing_generator
      ''Software engineering role requiring technical expertise.'' True
     = ''Study the job requirements and prepare concrete examples from your experience.''"
    by simp
  from t [where env = key_env and gen = blank_generator] k b a' sp
  have 3: "generate_prep_tip key_env blank_generator
      ''Software engineering role requiring technical expertise.'' True = []"
    by (simp add: strip_def is_space_def)
  from a a' 1 2 3 show ?thesis by simp
qed

end
